theory Spec2Isabelle
  imports Main "HOL-Library.Sublist"
begin

section \<open>Values, dictionaries and errors\<close>

text \<open>
  The values that travel through \<open>src/main.py\<close> come out of \<open>json.loads\<close> or out of
  form data: \<open>None\<close>, booleans, integers and strings.  Any other value (a float, a list,
  a nested object) is only ever tested for truth or formatted by the modelled code, so it
  is carried as \<open>POther t s\<close>: its truth value \<open>t\<close> and its \<open>str()\<close> text \<open>s\<close>.
  Strings are byte strings (UTF-8).
\<close>

datatype pyval = PNone | PBool bool | PInt int | PStr string | POther bool string

text \<open>The exceptions that can leave the modelled functions.\<close>

datatype py_error = JSONDecodeError | AttributeError | KeyError | ConnectionClosed

text \<open>Python truthiness, as tested by \<open>if phone:\<close> and \<open>if arguments.get(key):\<close>.\<close>

fun truthy :: "pyval \<Rightarrow> bool" where
  "truthy PNone = False"
| "truthy (PBool b) = b"
| "truthy (PInt i) = (i \<noteq> 0)"
| "truthy (PStr s) = (s \<noteq> [])"
| "truthy (POther t s) = t"

definition digit :: "nat \<Rightarrow> char" where
  "digit k = ''0123456789'' ! (k mod 10)"

fun show_nat :: "nat \<Rightarrow> string" where
  "show_nat n = (if n < 10 then [digit n] else show_nat (n div 10) @ [digit (n mod 10)])"

declare show_nat.simps [simp del]

definition show_int :: "int \<Rightarrow> string" where
  "show_int i = (if i < 0 then CHR ''-'' # show_nat (nat (- i)) else show_nat (nat i))"

text \<open>What an f-string \<open>{v}\<close> renders.\<close>

fun py_str :: "pyval \<Rightarrow> string" where
  "py_str PNone = ''None''"
| "py_str (PBool b) = (if b then ''True'' else ''False'')"
| "py_str (PInt i) = show_int i"
| "py_str (PStr s) = s"
| "py_str (POther t s) = s"

text \<open>\<open>d.get(k)\<close> and \<open>d.get(k, default)\<close> on a dictionary.\<close>

type_synonym pydict = "string \<rightharpoonup> pyval"

definition dict_get :: "pydict \<Rightarrow> string \<Rightarrow> pyval" where
  "dict_get d k = (case d k of None \<Rightarrow> PNone | Some v \<Rightarrow> v)"

definition dict_get_default :: "pydict \<Rightarrow> string \<Rightarrow> pyval \<Rightarrow> pyval" where
  "dict_get_default d k dflt = (case d k of None \<Rightarrow> dflt | Some v \<Rightarrow> v)"

text \<open>
  The decoded \<open>arguments\<close> of a tool call: \<open>json.loads\<close> yields an object (a dict) or some
  other JSON value, on which \<open>.get\<close> raises \<open>AttributeError\<close>.
\<close>

datatype pyargs = ArgsObject pydict | ArgsOther pyval

fun args_get :: "pyargs \<Rightarrow> string \<Rightarrow> py_error + pyval" where
  "args_get (ArgsObject d) k = Inr (dict_get d k)"
| "args_get (ArgsOther v) k = Inl AttributeError"

section \<open>Collaborators: configuration, library calls, I/O outcomes and effects\<close>

text \<open>A \<open>datetime\<close>; the planner reads only \<open>hour\<close> and \<open>minute\<close> of a booked start.\<close>

record pydatetime =
  dt_year :: nat
  dt_month :: nat
  dt_day :: nat
  dt_hour :: nat
  dt_minute :: nat

text \<open>
  A calendar event as returned by \<open>events().list()\<close>: its \<open>'start'\<close> entry, \<open>None\<close> when the
  key is absent, else a dict of strings (\<open>'dateTime'\<close>, \<open>'date'\<close>, \<open>'timeZone'\<close>).
\<close>

type_synonym event = "(string \<rightharpoonup> string) option"

text \<open>
  The environment of one run.  Configuration: which Google services \<open>_init_services\<close>
  managed to build and whether \<open>SHEET_ID\<close> is set.  Library calls, as functions of their
  argument, \<open>None\<close> when they raise: \<open>day_window\<close> is lines 208-210 (\<open>strptime\<close> of the date
  and the two ISO bounds), \<open>fromisoformat\<close> is \<open>datetime.fromisoformat\<close>, \<open>booking_times\<close> is
  lines 267-269 (\<open>strptime\<close> of date and time, plus one hour).  I/O outcomes, indexed by
  the number of I/O calls made so far, so that successive calls may differ:
  \<open>events_list\<close> (\<open>None\<close>: the query raises), \<open>events_insert\<close> (the created event's
  \<open>htmlLink\<close>, \<open>None\<close>: the insert raises), \<open>append_row_ok\<close> (opening the worksheet and
  appending succeed), \<open>sms_post\<close> (the HTTP status, \<open>None\<close>: the request raises),
  \<open>ws_send_ok\<close> (a websocket send succeeds), \<open>now\<close> (\<open>datetime.now().isoformat()\<close>).
  \<open>stream_sid\<close> is the \<open>streamSid\<close> entry of the telephony start message, \<open>None\<close> when
  the message has none.
\<close>

record env =
  calendar_service :: bool
  sheets_service :: bool
  SHEET_ID :: bool
  day_window :: "pyval \<Rightarrow> (string \<times> string) option"
  fromisoformat :: "string \<Rightarrow> pydatetime option"
  booking_times :: "string \<Rightarrow> (string \<times> string) option"
  events_list :: "nat \<Rightarrow> string \<times> string \<Rightarrow> event list option"
  events_insert :: "nat \<Rightarrow> pyval option"
  append_row_ok :: "nat \<Rightarrow> bool"
  sms_post :: "nat \<Rightarrow> nat option"
  ws_send_ok :: "nat \<Rightarrow> bool"
  now :: "nat \<Rightarrow> string"
  stream_sid :: "pyval option"

text \<open>
  The outputs sent on the AI transport by the relay: a \<open>function_call_output\<close> item (call
  id and result) and the \<open>response.create\<close> request.
\<close>

datatype rval = RVal pyval | RSlots "string list" | RArgs pyargs

type_synonym tool_result = "(string \<rightharpoonup> rval) option"

datatype ai_out = FunctionCallOutput pyval tool_result | ResponseCreate

text \<open>
  The effects of a run.  \<open>tick\<close> counts the I/O calls made.  \<open>log_lead_calls\<close> and
  \<open>sms_requests\<close> hold one entry per invocation of \<open>GoogleIntegration.log_lead\<close> and of
  \<open>TwilioIntegration.send_sms\<close> (the \<open>To\<close> and \<open>Body\<close> of its payload); \<open>console\<close> holds the
  \<open>LEAD LOG\<close> prints; \<open>leads_sheet\<close> and \<open>appointments_sheet\<close> hold the rows appended to
  the two worksheets; \<open>calendar_events\<close> holds the booking data of every event inserted;
  \<open>twilio_sent\<close> (stream identifier and payload of each media frame) and \<open>openai_sent\<close>
  hold what the relay sent on the two transports.
  Calls of \<open>logger\<close> are not modelled.
\<close>

record world =
  tick :: nat
  log_lead_calls :: "pyargs list"
  console :: "pyargs list"
  leads_sheet :: "pyval list list"
  appointments_sheet :: "pyval list list"
  calendar_events :: "pydict list"
  sms_requests :: "(pyval \<times> pyval) list"
  twilio_sent :: "(pyval \<times> string) list"
  openai_sent :: "ai_out list"

section \<open>GoogleIntegration.check_calendar_availability\<close>

text \<open>\<open>strftime("%I:%M %p")\<close> of a time of day given in minutes since midnight.\<close>

definition pad2 :: "nat \<Rightarrow> string" where
  "pad2 n = [digit (n div 10), digit n]"

definition strftime_IMp :: "nat \<Rightarrow> string" where
  "strftime_IMp t =
     (let h = t div 60; m = t mod 60; h12 = (if h mod 12 = 0 then 12 else h mod 12)
      in pad2 h12 @ '':'' @ pad2 m @ '' '' @ (if h < 12 then ''AM'' else ''PM''))"

text \<open>\<open>start.replace('Z', '+00:00')\<close>.\<close>

definition replace_Z :: "string \<Rightarrow> string" where
  "replace_Z s = concat (map (\<lambda>c. if c = CHR ''Z'' then ''+00:00'' else [c]) s)"

text \<open>
  Lines 223-227: the booked starts of the events, \<open>None\<close> when the loop raises (an event
  without \<open>'start'\<close>, a start without \<open>'dateTime'\<close> and \<open>'date'\<close>, a text that
  \<open>fromisoformat\<close> rejects).
\<close>

fun booked_slots :: "env \<Rightarrow> event list \<Rightarrow> pydatetime list \<Rightarrow> pydatetime list option" where
  "booked_slots e [] acc = Some acc"
| "booked_slots e (None # evs) acc = None"
| "booked_slots e (Some st # evs) acc =
     (case (case st ''dateTime'' of Some s \<Rightarrow> Some s | None \<Rightarrow> st ''date'') of
        None \<Rightarrow> None
      | Some start \<Rightarrow>
          if CHR ''T'' \<in> set start
          then (case fromisoformat e (replace_Z start) of
                  None \<Rightarrow> None
                | Some dt \<Rightarrow> booked_slots e evs (acc @ [dt]))
          else booked_slots e evs acc)"

text \<open>
  Lines 234-240: the inner loop over the booked starts, for the candidate \<open>current\<close>
  (minutes since midnight of the target date).
\<close>

fun is_available :: "int \<Rightarrow> nat \<Rightarrow> pydatetime list \<Rightarrow> bool" where
  "is_available d current [] = True"
| "is_available d current (booked # rest) =
     (if dt_hour booked = current div 60
         \<and> \<bar>int (dt_minute booked) - int (current mod 60)\<bar> < d
      then False
      else is_available d current rest)"

text \<open>Lines 233-245: the outer loop, from \<open>current\<close> up to \<open>end\<close> in steps of 60 minutes.\<close>

function slots_loop :: "int \<Rightarrow> pydatetime list \<Rightarrow> nat \<Rightarrow> nat \<Rightarrow> string list \<Rightarrow> string list" where
  "slots_loop d booked current end available =
     (if current < end
      then slots_loop d booked (current + 60) end
             (if is_available d current booked
              then available @ [strftime_IMp current] else available)
      else available)"
  by pat_completeness auto
termination
  by (relation "measure (\<lambda>(d, booked, current, end, available). end - current)") auto

declare slots_loop.simps [simp del]

definition fallback_slots :: "string list" where
  "fallback_slots = [''10:00 AM'', ''2:00 PM'', ''4:00 PM'']"

definition io :: "world \<Rightarrow> world" where
  "io w = w\<lparr>tick := Suc (tick w)\<rparr>"

definition check_calendar_availability ::
  "env \<Rightarrow> pyval \<Rightarrow> int \<Rightarrow> world \<Rightarrow> string list \<times> world" where
  "check_calendar_availability e date_str duration_minutes w =
     (if \<not> calendar_service e then (fallback_slots, w)
      else case day_window e date_str of
        None \<Rightarrow> (fallback_slots, w)
      | Some window \<Rightarrow>
          (case events_list e (tick w) window of
             None \<Rightarrow> (fallback_slots, io w)
           | Some events \<Rightarrow>
               (case booked_slots e events [] of
                  None \<Rightarrow> (fallback_slots, io w)
                | Some booked \<Rightarrow>
                    (take 5 (slots_loop duration_minutes booked (9 * 60) (20 * 60) []), io w))))"

section \<open>GoogleIntegration.log_lead and book_appointment, TwilioIntegration.send_sms\<close>

text \<open>Lines 178-192: the row written to the \<open>Leads\<close> worksheet.\<close>

definition lead_row :: "string \<Rightarrow> pydict \<Rightarrow> pyval list" where
  "lead_row stamp lead_data =
     [PStr stamp,
      dict_get_default lead_data ''name'' (PStr []),
      dict_get_default lead_data ''phone'' (PStr []),
      dict_get_default lead_data ''email'' (PStr []),
      dict_get_default lead_data ''type'' (PStr []),
      dict_get_default lead_data ''area_interest'' (PStr []),
      dict_get_default lead_data ''budget'' (PStr []),
      dict_get_default lead_data ''timeline'' (PStr []),
      dict_get_default lead_data ''property_address'' (PStr []),
      dict_get_default lead_data ''notes'' (PStr []),
      dict_get_default lead_data ''next_action'' (PStr []),
      PStr ''AI Receptionist'',
      PStr ''New'']"

text \<open>
  Lines 167-198.  Without a configured store the record is printed to the console.
  Otherwise the worksheet is opened and the row appended; whatever raises there (the I/O,
  or \<open>.get\<close> on a value that is no dict) is caught and logged, and nothing is appended.
\<close>

definition log_lead :: "env \<Rightarrow> pyargs \<Rightarrow> world \<Rightarrow> world" where
  "log_lead e lead_data w0 =
     (let w = w0\<lparr>log_lead_calls := log_lead_calls w0 @ [lead_data]\<rparr> in
      if \<not> sheets_service e \<or> \<not> SHEET_ID e
      then w\<lparr>console := console w @ [lead_data]\<rparr>
      else case lead_data of
        ArgsOther v \<Rightarrow> io w
      | ArgsObject d \<Rightarrow>
          if append_row_ok e (tick w)
          then io (w\<lparr>leads_sheet := leads_sheet w @ [lead_row (now e (tick w)) d]\<rparr>)
          else io w)"

text \<open>Lines 316-327: the row written to the \<open>Appointments\<close> worksheet.\<close>

definition appointment_row :: "string \<Rightarrow> pydict \<Rightarrow> pyval \<Rightarrow> pyval list" where
  "appointment_row stamp booking_data link =
     [PStr stamp,
      dict_get booking_data ''name'',
      dict_get booking_data ''phone'',
      dict_get booking_data ''email'',
      dict_get_default booking_data ''purpose'' (PStr ''Real Estate Consultation''),
      dict_get booking_data ''date'',
      dict_get booking_data ''time'',
      dict_get_default booking_data ''location'' (PStr ''Phone/Video Call''),
      link,
      PStr ''Confirmed'']"

text \<open>
  Lines 253-334.  Without a calendar service the booking is a mock and succeeds.
  Otherwise every exception (reading a value that is no dict, parsing date and time,
  the insert, the worksheet append after a successful insert) makes the result \<open>False\<close>.
\<close>

definition book_appointment :: "env \<Rightarrow> pyargs \<Rightarrow> world \<Rightarrow> bool \<times> world" where
  "book_appointment e booking_data w =
     (if \<not> calendar_service e then (True, w)
      else case booking_data of
        ArgsOther v \<Rightarrow> (False, w)
      | ArgsObject d \<Rightarrow>
          (case booking_times e (py_str (dict_get d ''date'') @ '' '' @ py_str (dict_get d ''time'')) of
             None \<Rightarrow> (False, w)
           | Some start_end \<Rightarrow>
               (case events_insert e (tick w) of
                  None \<Rightarrow> (False, io w)
                | Some link \<Rightarrow>
                    (let w1 = io (w\<lparr>calendar_events := calendar_events w @ [d]\<rparr>) in
                     if sheets_service e \<and> SHEET_ID e
                     then (if append_row_ok e (tick w1)
                           then (True, io (w1\<lparr>appointments_sheet :=
                                   appointments_sheet w1 @ [appointment_row (now e (tick w1)) d link]\<rparr>))
                           else (False, io w1))
                     else (True, w1)))))"

text \<open>
  Lines 347-371: one request per invocation; \<open>True\<close> exactly when the response status
  is 201.
\<close>

definition send_sms :: "env \<Rightarrow> pyval \<Rightarrow> pyval \<Rightarrow> world \<Rightarrow> bool \<times> world" where
  "send_sms e to_number message w =
     (sms_post e (tick w) = Some 201,
      io (w\<lparr>sms_requests := sms_requests w @ [(to_number, message)]\<rparr>))"

section \<open>CallSession\<close>

record session =
  call_sid :: string
  lead_data :: pydict
  transfer_requested :: bool
  appointment_booked :: bool

text \<open>Lines 569-584; \<open>notes\<close> starts as the empty list.\<close>

definition CallSession :: "string \<Rightarrow> session" where
  "CallSession sid =
     \<lparr>call_sid = sid,
      lead_data = [''name'' \<mapsto> PNone, ''phone'' \<mapsto> PNone, ''email'' \<mapsto> PNone, ''type'' \<mapsto> PNone,
                   ''area_interest'' \<mapsto> PNone, ''budget'' \<mapsto> PNone, ''timeline'' \<mapsto> PNone,
                   ''notes'' \<mapsto> POther False ''[]''],
      transfer_requested = False,
      appointment_booked = False\<rparr>"

text \<open>
  A \<open>response.function_call_arguments.done\<close> message: its \<open>name\<close> and \<open>call_id\<close> entries
  (\<open>PNone\<close> when absent) and the outcome of \<open>json.loads\<close> on its \<open>arguments\<close> text:
  \<open>None\<close> when it raises, \<open>Some (ArgsObject Map.empty)\<close> when the entry is absent (the
  default text is \<open>{}\<close>).
\<close>

record tool_call =
  tc_name :: pyval
  tc_call_id :: pyval
  tc_arguments :: "pyargs option"

text \<open>Line 607: the confirmation text.\<close>

definition confirmation_msg :: "pydict \<Rightarrow> string" where
  "confirmation_msg arguments =
     ''Confirmed: '' @ py_str (dict_get arguments ''purpose'')
     @ '' with Mark Esposito on '' @ py_str (dict_get arguments ''date'')
     @ '' at '' @ py_str (dict_get arguments ''time'')
     @ ''. Address: '' @ py_str (dict_get arguments ''location'')
     @ ''. Mark will contact you shortly. -BHHS Qu'' @ [CHR 0xC3, CHR 0xA9] @ ''bec''"

text \<open>Lines 614-616: the merge of the truthy arguments into the session's lead data.\<close>

fun merge_lead :: "pydict \<Rightarrow> pydict \<Rightarrow> string list \<Rightarrow> pydict" where
  "merge_lead ld arguments [] = ld"
| "merge_lead ld arguments (key # keys) =
     merge_lead (if truthy (dict_get arguments key) then ld(key \<mapsto> dict_get arguments key) else ld)
       arguments keys"

definition lead_keys :: "string list" where
  "lead_keys = [''name'', ''phone'', ''email'', ''type'', ''area_interest'', ''budget'', ''timeline'']"

text \<open>Lines 629-635: the record of a transfer request.\<close>

definition transfer_record :: "pydict \<Rightarrow> pydict \<Rightarrow> pydict" where
  "transfer_record ld arguments =
     [''name'' \<mapsto> dict_get_default ld ''name'' (PStr ''Unknown''),
      ''phone'' \<mapsto> dict_get_default ld ''phone'' (PStr ''Unknown''),
      ''type'' \<mapsto> dict_get_default ld ''type'' (PStr ''Other''),
      ''notes'' \<mapsto> PStr (''WARM TRANSFER REQUESTED: '' @ py_str (dict_get arguments ''reason'')),
      ''next_action'' \<mapsto> PStr (''Call back immediately. Context: ''
                                   @ py_str (dict_get arguments ''context_summary''))]"

text \<open>Lines 643-649: the record of a voicemail.\<close>

definition voicemail_record :: "pydict \<Rightarrow> pydict" where
  "voicemail_record arguments =
     [''name'' \<mapsto> dict_get arguments ''caller_name'',
      ''phone'' \<mapsto> dict_get arguments ''caller_phone'',
      ''type'' \<mapsto> PStr ''Voicemail'',
      ''notes'' \<mapsto> dict_get arguments ''message'',
      ''next_action'' \<mapsto> PStr (''Callback requested - Urgency: ''
                                   @ py_str (dict_get_default arguments ''urgency'' (PStr ''Medium'')))]"

text \<open>
  Lines 586-652.  The result is the raised exception or the returned value (\<open>None\<close> for
  an unknown name), with the session and the world as the call leaves them.
\<close>

definition handle_tool_call ::
  "env \<Rightarrow> session \<Rightarrow> tool_call \<Rightarrow> world \<Rightarrow> (py_error + tool_result) \<times> session \<times> world" where
  "handle_tool_call e s tc w =
     (case tc_arguments tc of
        None \<Rightarrow> (Inl JSONDecodeError, s, w)
      | Some arguments \<Rightarrow>
          if tc_name tc = PStr ''check_calendar_availability'' then
            (case args_get arguments ''date'' of
               Inl err \<Rightarrow> (Inl err, s, w)
             | Inr date \<Rightarrow>
                 (let (slots, w1) = check_calendar_availability e date 60 w
                  in (Inr (Some [''available_slots'' \<mapsto> RSlots slots, ''date'' \<mapsto> RVal date]), s, w1)))
          else if tc_name tc = PStr ''book_appointment'' then
            (let (success, w1) = book_appointment e arguments w;
                 result = Some [''success'' \<mapsto> RVal (PBool success), ''booking_details'' \<mapsto> RArgs arguments]
             in if success then
                  (let s1 = s\<lparr>appointment_booked := True\<rparr> in
                   case arguments of
                     ArgsOther v \<Rightarrow> (Inl AttributeError, s1, w1)
                   | ArgsObject d \<Rightarrow>
                       if truthy (dict_get d ''phone'')
                       then (Inr result, s1,
                             snd (send_sms e (dict_get d ''phone'') (PStr (confirmation_msg d)) w1))
                       else (Inr result, s1, w1))
                else (Inr result, s, w1))
          else if tc_name tc = PStr ''log_lead'' then
            (let w1 = log_lead e arguments w in
             case arguments of
               ArgsOther v \<Rightarrow> (Inl AttributeError, s, w1)
             | ArgsObject d \<Rightarrow>
                 (Inr (Some [''success'' \<mapsto> RVal (PBool True), ''lead_id'' \<mapsto> RVal (PStr (call_sid s))]),
                  s\<lparr>lead_data := merge_lead (lead_data s) d lead_keys\<rparr>, w1))
          else if tc_name tc = PStr ''send_sms_confirmation'' then
            (case arguments of
               ArgsOther v \<Rightarrow> (Inl AttributeError, s, w)
             | ArgsObject d \<Rightarrow>
                 (let (success, w1) = send_sms e (dict_get d ''phone'') (dict_get d ''message'') w
                  in (Inr (Some [''success'' \<mapsto> RVal (PBool success)]), s, w1)))
          else if tc_name tc = PStr ''warm_transfer'' then
            (let s1 = s\<lparr>transfer_requested := True\<rparr> in
             case arguments of
               ArgsOther v \<Rightarrow> (Inl AttributeError, s1, w)
             | ArgsObject d \<Rightarrow>
                 (Inr (Some [''status'' \<mapsto> RVal (PStr ''transfer_initiated''),
                             ''message'' \<mapsto> RVal (PStr ''Connecting you to Mark Esposito now. Please hold.''),
                             ''context'' \<mapsto> RVal (dict_get d ''context_summary'')]),
                  s1,
                  log_lead e (ArgsObject (transfer_record (lead_data s) d)) w))
          else if tc_name tc = PStr ''log_voicemail'' then
            (case arguments of
               ArgsOther v \<Rightarrow> (Inl AttributeError, s, w)
             | ArgsObject d \<Rightarrow>
                 (Inr (Some [''success'' \<mapsto> RVal (PBool True), ''callback_within'' \<mapsto> RVal (PStr ''2 hours'')]),
                  s,
                  log_lead e (ArgsObject (voicemail_record d)) w))
          else (Inr None, s, w))"

section \<open>The AI-to-telephony relay loop\<close>



section \<open>The session registry\<close>

type_synonym registry = "string \<rightharpoonup> session"

text \<open>Lines 720-722: the session of an incoming call, its phone seeded from the caller id.\<close>

definition incoming_call :: "string \<Rightarrow> pyval \<Rightarrow> registry \<Rightarrow> registry" where
  "incoming_call sid from_number active_sessions =
     active_sessions(sid \<mapsto>
       (CallSession sid)\<lparr>lead_data := (lead_data (CallSession sid))(''phone'' \<mapsto> from_number)\<rparr>)"

text \<open>Lines 889-891: the record of the final log.\<close>

definition finalize_record :: "session \<Rightarrow> pydict" where
  "finalize_record s =
     (lead_data s)(''notes'' \<mapsto> PStr ''Call ended without booking. Follow up required.'',
                   ''next_action'' \<mapsto> PStr ''Call back to qualify further'')"

text \<open>Lines 881-894, after the sleep.\<close>

definition delayed_cleanup :: "env \<Rightarrow> string \<Rightarrow> registry \<Rightarrow> world \<Rightarrow> registry \<times> world" where
  "delayed_cleanup e sid active_sessions w =
     (case active_sessions sid of
        None \<Rightarrow> (active_sessions, w)
      | Some s \<Rightarrow>
          (active_sessions(sid := None),
           if \<not> appointment_booked s \<and> truthy (dict_get (lead_data s) ''name'')
           then log_lead e (ArgsObject (finalize_record s)) w
           else w))"

section \<open>What a slot label denotes\<close>

text \<open>
  A 12-hour clock label is one or two hour digits, a colon, two minute digits, a space
  and \<open>AM\<close> or \<open>PM\<close>, with the hour in 1..12 and the minute below 60.  \<open>label_time\<close> reads
  the time of day it denotes, in minutes since midnight, and is \<open>None\<close> on any other text.
\<close>

definition digit_val :: "char \<Rightarrow> nat option" where
  "digit_val c = map_of (zip ''0123456789'' [0, 1, 2, 3, 4, 5, 6, 7, 8, 9]) c"

definition clock12 :: "nat option \<Rightarrow> string \<Rightarrow> nat option" where
  "clock12 hour rest =
     (case (hour, rest) of
        (Some h, [c, m1, m2, sp, ap, mm]) \<Rightarrow>
          (case (digit_val m1, digit_val m2) of
             (Some a, Some b) \<Rightarrow>
               if c = CHR '':'' \<and> sp = CHR '' '' \<and> mm = CHR ''M''
                  \<and> (ap = CHR ''A'' \<or> ap = CHR ''P'')
                  \<and> 1 \<le> h \<and> h \<le> 12 \<and> 10 * a + b < 60
               then Some ((h mod 12 + (if ap = CHR ''P'' then 12 else 0)) * 60 + (10 * a + b))
               else None
           | _ \<Rightarrow> None)
      | _ \<Rightarrow> None)"

definition label_time :: "string \<Rightarrow> nat option" where
  "label_time l =
     (if length l = 7 then clock12 (digit_val (l ! 0)) (drop 1 l)
      else if length l = 8
      then clock12 (case (digit_val (l ! 0), digit_val (l ! 1)) of
                      (Some a, Some b) \<Rightarrow> Some (10 * a + b) | _ \<Rightarrow> None) (drop 2 l)
      else None)"

section \<open>Notions used by the properties\<close>

text \<open>The candidate starts of the business window, 09:00 to 19:00 on the hour, in minutes.\<close>

definition candidates :: "nat list" where
  "candidates = [540, 600, 660, 720, 780, 840, 900, 960, 1020, 1080, 1140]"

text \<open>
  Every label of \<open>slots\<close> is a 12-hour clock label, the times denoted are strictly
  ascending and each lies in \<open>[lo, hi)\<close>.
\<close>

definition ascending_within :: "nat \<Rightarrow> nat \<Rightarrow> string list \<Rightarrow> bool" where
  "ascending_within lo hi slots =
     (case those (map label_time slots) of
        None \<Rightarrow> False
      | Some ts \<Rightarrow> sorted_wrt (<) ts \<and> list_all (\<lambda>t. lo \<le> t \<and> t < hi) ts)"

text \<open>
  The paths of \<open>check_calendar_availability\<close> on which the calendar is unavailable or the
  query fails: no calendar service, a date that does not parse, a list request that
  raises, an event whose start cannot be read.
\<close>

definition calendar_query_fails :: "env \<Rightarrow> pyval \<Rightarrow> world \<Rightarrow> bool" where
  "calendar_query_fails e date_str w =
     (if calendar_service e
      then (case day_window e date_str of
              None \<Rightarrow> True
            | Some window \<Rightarrow>
                (case events_list e (tick w) window of
                   None \<Rightarrow> True
                 | Some events \<Rightarrow> booked_slots e events [] = None))
      else True)"

text \<open>The entry \<open>k\<close> of the dict that \<open>handle_tool_call\<close> returned, if it returned one.\<close>

definition result_field :: "py_error + tool_result \<Rightarrow> string \<Rightarrow> rval option" where
  "result_field r k = (case r of Inr (Some m) \<Rightarrow> m k | _ \<Rightarrow> None)"



text \<open>
  The calendar-store create of a booking succeeds: there is a calendar service, the
  arguments are a dict whose date and time parse, and the insert request of lines
  307-311 returns.  It fails: there is a calendar service and the request raises, or
  building it raises so that it is never sent.
\<close>

definition create_succeeds :: "env \<Rightarrow> pyargs \<Rightarrow> world \<Rightarrow> bool" where
  "create_succeeds e booking_data w =
     (if calendar_service e
      then (case booking_data of
              ArgsOther v \<Rightarrow> False
            | ArgsObject d \<Rightarrow>
                (case booking_times e (py_str (dict_get d ''date'') @ '' '' @ py_str (dict_get d ''time'')) of
                   None \<Rightarrow> False
                 | Some start_end \<Rightarrow>
                     (case events_insert e (tick w) of None \<Rightarrow> False | Some link \<Rightarrow> True)))
      else False)"

definition create_fails :: "env \<Rightarrow> pyargs \<Rightarrow> world \<Rightarrow> bool" where
  "create_fails e booking_data w =
     (if calendar_service e
      then (case booking_data of
              ArgsOther v \<Rightarrow> True
            | ArgsObject d \<Rightarrow>
                (case booking_times e (py_str (dict_get d ''date'') @ '' '' @ py_str (dict_get d ''time'')) of
                   None \<Rightarrow> True
                 | Some start_end \<Rightarrow>
                     (case events_insert e (tick w) of None \<Rightarrow> True | Some link \<Rightarrow> False)))
      else False)"

text \<open>
  The log of the appointment that follows a successful insert (lines 314-327) does not
  raise: the sheet is not configured, or the append, the I/O call after the insert,
  succeeds.
\<close>

definition appointment_log_ok :: "env \<Rightarrow> world \<Rightarrow> bool" where
  "appointment_log_ok e w =
     (if sheets_service e \<and> SHEET_ID e then append_row_ok e (Suc (tick w)) else True)"

text \<open>The record store is configured and its next append succeeds.\<close>

definition store_accepts :: "env \<Rightarrow> world \<Rightarrow> bool" where
  "store_accepts e w = (sheets_service e \<and> SHEET_ID e \<and> append_row_ok e (tick w))"

text \<open>The phone column of a row of the \<open>Leads\<close> worksheet.\<close>

definition row_phone :: "pyval list \<Rightarrow> pyval" where
  "row_phone row = row ! 2"


section \<open>Concrete runs\<close>

text \<open>An empty world, and a session as \<open>incoming_call\<close> creates it for a caller.\<close>

definition world0 :: world where
  "world0 = \<lparr>tick = 0, log_lead_calls = [], console = [], leads_sheet = [],
             appointments_sheet = [], calendar_events = [], sms_requests = [],
             twilio_sent = [], openai_sent = []\<rparr>"

definition session0 :: session where
  "session0 = (CallSession ''CA1'')\<lparr>lead_data :=
                 (lead_data (CallSession ''CA1''))(''phone'' \<mapsto> PStr ''+15145550000'')\<rparr>"

text \<open>No Google credentials: no calendar service, no sheets service, no sheet id.\<close>

definition env_mock :: env where
  "env_mock = \<lparr>calendar_service = False, sheets_service = False, SHEET_ID = False,
               day_window = (\<lambda>d. None), fromisoformat = (\<lambda>s. None),
               booking_times = (\<lambda>s. None), events_list = (\<lambda>n win. None),
               events_insert = (\<lambda>n. None), append_row_ok = (\<lambda>n. False),
               sms_post = (\<lambda>n. Some 201), ws_send_ok = (\<lambda>n. True),
               now = (\<lambda>n. ''2025-06-01T12:00:00''), stream_sid = Some (PStr ''MZ1'')\<rparr>"

text \<open>
  Everything configured and working; the calendar holds one event on 2025-06-10, starting
  at 10:30.
\<close>

definition booked0 :: "pydatetime list" where
  "booked0 = [\<lparr>dt_year = 2025, dt_month = 6, dt_day = 10, dt_hour = 10, dt_minute = 30\<rparr>]"

definition env_live :: env where
  "env_live = \<lparr>calendar_service = True, sheets_service = True, SHEET_ID = True,
               day_window = (\<lambda>d. if d = PStr ''2025-06-10''
                                   then Some (''2025-06-10T00:00:00Z'', ''2025-06-11T00:00:00Z'')
                                   else None),
               fromisoformat = (\<lambda>s. if s = ''2025-06-10T10:30:00-04:00''
                                      then Some (hd booked0) else None),
               booking_times = (\<lambda>s. if s = ''2025-06-10 10:00 AM''
                                      then Some (''2025-06-10T10:00:00'', ''2025-06-10T11:00:00'')
                                      else None),
               events_list = (\<lambda>n win. Some [Some [''dateTime'' \<mapsto> ''2025-06-10T10:30:00-04:00'']]),
               events_insert = (\<lambda>n. Some (PStr ''https://calendar.example/event'')),
               append_row_ok = (\<lambda>n. True),
               sms_post = (\<lambda>n. Some 201), ws_send_ok = (\<lambda>n. True),
               now = (\<lambda>n. ''2025-06-01T12:00:00''), stream_sid = Some (PStr ''MZ1'')\<rparr>"

text \<open>Tool invocations.\<close>

definition booking_args :: pydict where
  "booking_args = [''name'' \<mapsto> PStr ''J. Doe'', ''phone'' \<mapsto> PStr ''+15145550000'',
                   ''date'' \<mapsto> PStr ''2025-06-10'', ''time'' \<mapsto> PStr ''10:00 AM'',
                   ''purpose'' \<mapsto> PStr ''Property Viewing'', ''location'' \<mapsto> PStr ''123 Rue X'']"

definition tc_book :: tool_call where
  "tc_book = \<lparr>tc_name = PStr ''book_appointment'', tc_call_id = PStr ''call_1'',
              tc_arguments = Some (ArgsObject booking_args)\<rparr>"

definition tc_book_no_phone :: tool_call where
  "tc_book_no_phone = \<lparr>tc_name = PStr ''book_appointment'', tc_call_id = PStr ''call_2'',
              tc_arguments = Some (ArgsObject (booking_args(''phone'' := None)))\<rparr>"

definition tc_book_bad_time :: tool_call where
  "tc_book_bad_time = \<lparr>tc_name = PStr ''book_appointment'', tc_call_id = PStr ''call_3'',
              tc_arguments = Some (ArgsObject (booking_args(''time'' \<mapsto> PStr ''25 o clock'')))\<rparr>"

definition tc_check_15 :: tool_call where
  "tc_check_15 = \<lparr>tc_name = PStr ''check_calendar_availability'', tc_call_id = PStr ''call_4'',
              tc_arguments = Some (ArgsObject [''date'' \<mapsto> PStr ''2025-06-10'',
                                               ''duration_minutes'' \<mapsto> PInt 15])\<rparr>"

definition tc_transfer :: tool_call where
  "tc_transfer = \<lparr>tc_name = PStr ''warm_transfer'', tc_call_id = PStr ''call_5'',
              tc_arguments = Some (ArgsObject [''reason'' \<mapsto> PStr ''wants Mark'',
                                               ''context_summary'' \<mapsto> PStr ''buyer, Westmount''])\<rparr>"


definition tc_lead_no_phone :: tool_call where
  "tc_lead_no_phone = \<lparr>tc_name = PStr ''log_lead'', tc_call_id = PStr ''call_7'',
              tc_arguments = Some (ArgsObject [''name'' \<mapsto> PStr ''J. Doe'', ''type'' \<mapsto> PStr ''Buyer''])\<rparr>"

definition tc_voicemail :: tool_call where
  "tc_voicemail = \<lparr>tc_name = PStr ''log_voicemail'', tc_call_id = PStr ''call_8'',
              tc_arguments = Some (ArgsObject [''caller_name'' \<mapsto> PStr ''J. Doe'',
                                               ''caller_phone'' \<mapsto> PStr ''+15145550000'',
                                               ''message'' \<mapsto> PStr ''call me''])\<rparr>"


text \<open>A session that booked, and one that only gave a name.\<close>

definition session_booked :: session where
  "session_booked = session0\<lparr>lead_data := (lead_data session0)(''name'' \<mapsto> PStr ''J. Doe''),
                             appointment_booked := True\<rparr>"

definition session_named :: session where
  "session_named = session0\<lparr>lead_data := (lead_data session0)(''name'' \<mapsto> PStr ''J. Doe'')\<rparr>"


text \<open>
  A call without caller id: the session is created, a \<open>log_lead\<close> invocation gives the
  name but no phone, the call ends without a booking and the deferred cleanup runs.
\<close>

definition unknown_caller_run :: world where
  "unknown_caller_run =
     (let active_sessions = incoming_call ''CA2'' PNone Map.empty in
      case active_sessions ''CA2'' of
        None \<Rightarrow> world0
      | Some s \<Rightarrow>
          (case handle_tool_call env_live s tc_lead_no_phone world0 of
             (r, s1, w1) \<Rightarrow> snd (delayed_cleanup env_live ''CA2'' (active_sessions(''CA2'' \<mapsto> s1)) w1)))"



text \<open>Two transfer requests in a row on one session.\<close>

definition transfer_once :: "(py_error + tool_result) \<times> session \<times> world" where
  "transfer_once = handle_tool_call env_live session0 tc_transfer world0"

definition transfer_twice :: "(py_error + tool_result) \<times> session \<times> world" where
  "transfer_twice =
     handle_tool_call env_live (fst (snd transfer_once)) tc_transfer (snd (snd transfer_once))"

text \<open>
  The live environment with a calendar insert that raises, with a sheet append that
  raises, and with a start message without stream identifier.
\<close>

definition env_insert_raises :: env where
  "env_insert_raises = env_live\<lparr>events_insert := (\<lambda>n. None)\<rparr>"

definition env_append_raises :: env where
  "env_append_raises = env_live\<lparr>append_row_ok := (\<lambda>n. False)\<rparr>"


definition tc_voicemail_no_phone :: tool_call where
  "tc_voicemail_no_phone = \<lparr>tc_name = PStr ''log_voicemail'', tc_call_id = PStr ''call_12'',
              tc_arguments = Some (ArgsObject [''caller_name'' \<mapsto> PStr ''J. Doe'',
                                               ''message'' \<mapsto> PStr ''call me''])\<rparr>"


section \<open>The loop of the planner in closed form\<close>

lemma slots_loop_acc:
  "slots_loop d booked current end available = available @ slots_loop d booked current end []"
proof (induction "end - current" arbitrary: current available rule: less_induct)
  case less
  show ?case
  proof (cases "current < end")
    case True
    let ?new = "if is_available d current booked then [strftime_IMp current] else []"
    have smaller: "end - (current + 60) < end - current"
      using True by simp
    have "slots_loop d booked current end available =
            slots_loop d booked (current + 60) end (available @ ?new)"
      using True by (subst slots_loop.simps) simp
    also have "\<dots> = (available @ ?new) @ slots_loop d booked (current + 60) end []"
      by (rule less [OF smaller])
    also have "\<dots> = available @ slots_loop d booked (current + 60) end ?new"
      using less [OF smaller, of ?new] by simp
    also have "slots_loop d booked (current + 60) end ?new = slots_loop d booked current end []"
      using True by (subst (2) slots_loop.simps) simp
    finally show ?thesis .
  next
    case False
    then show ?thesis by (simp add: slots_loop.simps)
  qed
qed

lemma slots_loop_step:
  "current < end \<Longrightarrow> slots_loop d booked current end [] =
     (if is_available d current booked then [strftime_IMp current] else [])
     @ slots_loop d booked (current + 60) end []"
  by (subst slots_loop.simps, subst slots_loop_acc) simp

lemma slots_loop_stop: "\<not> current < end \<Longrightarrow> slots_loop d booked current end [] = []"
  by (simp add: slots_loop.simps)

lemma slots_loop_day:
  "slots_loop d booked 540 1200 [] =
     map strftime_IMp (filter (\<lambda>c. is_available d c booked) candidates)"
  by (simp add: slots_loop_step slots_loop_stop candidates_def)


lemma is_available_iff:
  "is_available d current booked \<longleftrightarrow>
     \<not> (\<exists>b \<in> set booked. dt_hour b = current div 60
            \<and> \<bar>int (dt_minute b) - int (current mod 60)\<bar> < d)"
  by (induction booked) auto

lemma strftime_candidates:
  "map strftime_IMp candidates =
     [''09:00 AM'', ''10:00 AM'', ''11:00 AM'', ''12:00 PM'', ''01:00 PM'', ''02:00 PM'',
      ''03:00 PM'', ''04:00 PM'', ''05:00 PM'', ''06:00 PM'', ''07:00 PM'']"
  by (simp add: candidates_def strftime_IMp_def pad2_def digit_def)

lemma label_time_labels:
  "map label_time
     [''09:00 AM'', ''10:00 AM'', ''11:00 AM'', ''12:00 PM'', ''01:00 PM'', ''02:00 PM'',
      ''03:00 PM'', ''04:00 PM'', ''05:00 PM'', ''06:00 PM'', ''07:00 PM'']
   = map Some candidates"
  by (simp add: candidates_def label_time_def clock12_def digit_val_def)

lemma label_time_candidates:
  assumes "c \<in> set candidates"
  shows "label_time (strftime_IMp c) = Some c"
proof -
  have "map (label_time \<circ> strftime_IMp) candidates = map Some candidates"
    using label_time_labels strftime_candidates by (simp flip: map_map)
  then show ?thesis
    using assms by (simp only: map_eq_conv comp_def)
qed
lemma those_labels:
  "set xs \<subseteq> set candidates \<Longrightarrow> those (map label_time (map strftime_IMp xs)) = Some xs"
  by (induction xs) (auto simp: label_time_candidates)

lemma candidates_sorted: "sorted_wrt (<) candidates"
  by (simp add: candidates_def)

lemma candidates_range: "c \<in> set candidates \<Longrightarrow> 540 \<le> c \<and> c < 1200"
  by (auto simp: candidates_def)

lemma day_slots_ok:
  "ascending_within 540 1200 (take 5 (map strftime_IMp (filter P candidates)))"
proof -
  let ?xs = "take 5 (filter P candidates)"
  have sub: "set ?xs \<subseteq> set candidates"
    using set_take_subset [of 5 "filter P candidates"] by auto
  have "sorted_wrt (<) (filter P candidates)"
    using candidates_sorted by (rule sorted_wrt_filter)
  then have asc: "sorted_wrt (<) ?xs"
    by (rule sorted_wrt_take)
  have rng: "list_all (\<lambda>t. 540 \<le> t \<and> t < 1200) ?xs"
    unfolding list_all_iff using sub candidates_range by blast
  have "those (map label_time (map strftime_IMp ?xs)) = Some ?xs"
    using sub by (rule those_labels)
  then show ?thesis
    using asc rng by (simp add: ascending_within_def take_map)
qed

lemma fallback_ok: "ascending_within 540 1200 fallback_slots"
  by (simp add: ascending_within_def fallback_slots_def label_time_def clock12_def digit_val_def)

lemma availability_cases:
  "fst (check_calendar_availability e date d w) = fallback_slots
   \<or> (\<exists>booked. fst (check_calendar_availability e date d w)
         = take 5 (slots_loop d booked 540 1200 []))"
  by (auto simp: check_calendar_availability_def split: option.splits)

lemma fallback_length: "length fallback_slots \<le> 5"
  by (simp add: fallback_slots_def)


section \<open>The availability branch of the dispatcher, and a run against a live calendar\<close>

lemma check_branch:
  assumes "tc_name tc = PStr ''check_calendar_availability''"
    and "tc_arguments tc = Some (ArgsObject d)"
  shows "handle_tool_call e s tc w =
     (Inr (Some [''available_slots'' \<mapsto> RSlots (fst (check_calendar_availability e (dict_get d ''date'') 60 w)),
                 ''date'' \<mapsto> RVal (dict_get d ''date'')]),
      s, snd (check_calendar_availability e (dict_get d ''date'') 60 w))"
  using assms by (simp add: handle_tool_call_def split: prod.splits)

lemma live_booked:
  "booked_slots env_live [Some [''dateTime'' \<mapsto> ''2025-06-10T10:30:00-04:00'']] [] = Some booked0"
  by (simp add: env_live_def replace_Z_def booked0_def)

lemma live_day:
  "fst (check_calendar_availability env_live (PStr ''2025-06-10'') d world0) =
     take 5 (map strftime_IMp (filter (\<lambda>c. is_available d c booked0) candidates))"
proof -
  have "fst (check_calendar_availability env_live (PStr ''2025-06-10'') d world0) =
     take 5 (slots_loop d booked0 540 1200 [])"
    using live_booked by (simp add: check_calendar_availability_def env_live_def)
  then show ?thesis by (simp only: slots_loop_day)
qed

lemma filter_60: "filter (\<lambda>c. is_available 60 c booked0) candidates =
    [540, 660, 720, 780, 840, 900, 960, 1020, 1080, 1140]"
  by (simp add: booked0_def candidates_def)

lemma filter_15: "filter (\<lambda>c. is_available 15 c booked0) candidates = candidates"
  by (simp add: booked0_def candidates_def)

lemma labels_60: "map strftime_IMp [540, 660, 720, 780, 840] =
     [''09:00 AM'', ''11:00 AM'', ''12:00 PM'', ''01:00 PM'', ''02:00 PM'']"
  by (simp add: strftime_IMp_def pad2_def digit_def)

lemma labels_15: "map strftime_IMp [540, 600, 660, 720, 780] =
     [''09:00 AM'', ''10:00 AM'', ''11:00 AM'', ''12:00 PM'', ''01:00 PM'']"
  by (simp add: strftime_IMp_def pad2_def digit_def)

lemma take5_60: "take 5 [540, 660, 720, 780, 840, 900, 960, 1020, 1080, 1140 :: nat]
    = [540, 660, 720, 780, 840]"
  by simp

lemma take5_15: "take 5 candidates = [540, 600, 660, 720, 780]"
  by (simp add: candidates_def)

lemma live_slots_60:
  "fst (check_calendar_availability env_live (PStr ''2025-06-10'') 60 world0) =
     [''09:00 AM'', ''11:00 AM'', ''12:00 PM'', ''01:00 PM'', ''02:00 PM'']"
  by (simp only: live_day filter_60 take_map take5_60 labels_60)

lemma live_slots_15:
  "fst (check_calendar_availability env_live (PStr ''2025-06-10'') 15 world0) =
     [''09:00 AM'', ''10:00 AM'', ''11:00 AM'', ''12:00 PM'', ''01:00 PM'']"
  by (simp only: live_day filter_15 take_map take5_15 labels_15)


section \<open>The booking branch of the dispatcher\<close>

lemma book_appointment_sms:
  "sms_requests (snd (book_appointment e a w)) = sms_requests w"
  by (simp add: book_appointment_def io_def Let_def split: pyargs.splits option.splits)

lemma book_branch_failure:
  assumes "tc_name tc = PStr ''book_appointment''"
    and "tc_arguments tc = Some a"
    and "\<not> fst (book_appointment e a w)"
  shows "handle_tool_call e s tc w =
     (Inr (Some [''success'' \<mapsto> RVal (PBool False), ''booking_details'' \<mapsto> RArgs a]),
      s, snd (book_appointment e a w))"
  using assms by (cases "book_appointment e a w") (simp add: handle_tool_call_def Let_def)

lemma book_branch_success:
  assumes "tc_name tc = PStr ''book_appointment''"
    and "tc_arguments tc = Some (ArgsObject d)"
    and "fst (book_appointment e (ArgsObject d) w)"
  shows "handle_tool_call e s tc w =
     (Inr (Some [''success'' \<mapsto> RVal (PBool True), ''booking_details'' \<mapsto> RArgs (ArgsObject d)]),
      s\<lparr>appointment_booked := True\<rparr>,
      if truthy (dict_get d ''phone'')
      then snd (send_sms e (dict_get d ''phone'') (PStr (confirmation_msg d))
                  (snd (book_appointment e (ArgsObject d) w)))
      else snd (book_appointment e (ArgsObject d) w))"
  using assms
  by (cases "book_appointment e (ArgsObject d) w") (simp add: handle_tool_call_def Let_def)

lemma send_sms_requests:
  "sms_requests (snd (send_sms e to_number message w)) = sms_requests w @ [(to_number, message)]"
  by (simp add: send_sms_def io_def)

lemma confirmation_contains:
  "sublist (py_str (dict_get d ''purpose'')) (confirmation_msg d)"
  "sublist (py_str (dict_get d ''date'')) (confirmation_msg d)"
  "sublist (py_str (dict_get d ''time'')) (confirmation_msg d)"
  "sublist (py_str (dict_get d ''location'')) (confirmation_msg d)"
proof -
  show "sublist (py_str (dict_get d ''purpose'')) (confirmation_msg d)"
    unfolding confirmation_msg_def by (rule sublist_appendI)
  show "sublist (py_str (dict_get d ''date'')) (confirmation_msg d)"
    unfolding confirmation_msg_def sublist_def
    by (rule exI [of _ "''Confirmed: '' @ py_str (dict_get d ''purpose'') @ '' with Mark Esposito on ''"])
       (simp del: append_Cons)
  show "sublist (py_str (dict_get d ''time'')) (confirmation_msg d)"
    unfolding confirmation_msg_def sublist_def
    by (rule exI [of _ "''Confirmed: '' @ py_str (dict_get d ''purpose'') @ '' with Mark Esposito on ''
          @ py_str (dict_get d ''date'') @ '' at ''"]) (simp del: append_Cons)
  show "sublist (py_str (dict_get d ''location'')) (confirmation_msg d)"
    unfolding confirmation_msg_def sublist_def
    by (rule exI [of _ "''Confirmed: '' @ py_str (dict_get d ''purpose'') @ '' with Mark Esposito on ''
          @ py_str (dict_get d ''date'') @ '' at '' @ py_str (dict_get d ''time'') @ ''. Address: ''"])
       (simp del: append_Cons)
qed

lemma create_fails_result:
  assumes "create_fails e a w"
  shows "\<not> fst (book_appointment e a w)"
    and "calendar_events (snd (book_appointment e a w)) = calendar_events w"
  using assms
  by (auto simp: create_fails_def book_appointment_def io_def
      split: if_splits pyargs.splits option.splits)

lemma create_succeeds_result:
  assumes "create_succeeds e (ArgsObject d) w"
  shows "fst (book_appointment e (ArgsObject d) w) = appointment_log_ok e w"
    and "calendar_events (snd (book_appointment e (ArgsObject d) w)) = calendar_events w @ [d]"
  using assms
  by (auto simp: create_succeeds_def appointment_log_ok_def book_appointment_def io_def Let_def
      split: if_splits option.splits)

lemma send_sms_calendar:
  "calendar_events (snd (send_sms e to_number message w)) = calendar_events w"
  by (simp add: send_sms_def io_def)

lemma live_create_succeeds:
  "create_succeeds env_live (ArgsObject booking_args) world0"
  "create_succeeds env_live (ArgsObject (booking_args(''phone'' := None))) world0"
  "create_succeeds env_append_raises (ArgsObject booking_args) world0"
  by (simp_all add: create_succeeds_def env_live_def env_append_raises_def booking_args_def dict_get_def)

lemma live_log_ok:
  "appointment_log_ok env_live w"
  "\<not> appointment_log_ok env_append_raises w"
  by (simp_all add: appointment_log_ok_def env_live_def env_append_raises_def)

lemma insert_raises_fails:
  "create_fails env_insert_raises (ArgsObject booking_args) world0"
  by (simp add: create_fails_def env_insert_raises_def env_live_def booking_args_def dict_get_def)

lemma bad_time_fails:
  "create_fails env_live (ArgsObject (booking_args(''time'' \<mapsto> PStr ''25 o clock''))) world0"
  by (simp add: create_fails_def env_live_def booking_args_def dict_get_def)

lemma world0_empty:
  "sms_requests world0 = []" "calendar_events world0 = []" "log_lead_calls world0 = []"
  "leads_sheet world0 = []" "openai_sent world0 = []" "twilio_sent world0 = []"
  by (simp_all add: world0_def)

lemma session0_not_booked: "\<not> appointment_booked session0"
  by (simp add: session0_def CallSession_def)


section \<open>The record store and the branches that write to it\<close>

lemma log_lead_calls_append:
  "log_lead_calls (log_lead e a w) = log_lead_calls w @ [a]"
  by (simp add: log_lead_def io_def Let_def split: pyargs.splits)

lemma log_lead_row:
  assumes "store_accepts e w"
  shows "leads_sheet (log_lead e (ArgsObject d) w) = leads_sheet w @ [lead_row (now e (tick w)) d]"
  using assms by (simp add: log_lead_def store_accepts_def io_def Let_def)

lemma transfer_branch:
  assumes "tc_name tc = PStr ''warm_transfer''"
    and "tc_arguments tc = Some (ArgsObject d)"
  shows "handle_tool_call e s tc w =
     (Inr (Some [''status'' \<mapsto> RVal (PStr ''transfer_initiated''),
                 ''message'' \<mapsto> RVal (PStr ''Connecting you to Mark Esposito now. Please hold.''),
                 ''context'' \<mapsto> RVal (dict_get d ''context_summary'')]),
      s\<lparr>transfer_requested := True\<rparr>,
      log_lead e (ArgsObject (transfer_record (lead_data s) d)) w)"
  using assms by (simp add: handle_tool_call_def Let_def)

lemma lead_branch:
  assumes "tc_name tc = PStr ''log_lead''"
    and "tc_arguments tc = Some (ArgsObject d)"
  shows "handle_tool_call e s tc w =
     (Inr (Some [''success'' \<mapsto> RVal (PBool True), ''lead_id'' \<mapsto> RVal (PStr (call_sid s))]),
      s\<lparr>lead_data := merge_lead (lead_data s) d lead_keys\<rparr>,
      log_lead e (ArgsObject d) w)"
  using assms by (simp add: handle_tool_call_def Let_def)

lemma voicemail_branch:
  assumes "tc_name tc = PStr ''log_voicemail''"
    and "tc_arguments tc = Some (ArgsObject d)"
  shows "handle_tool_call e s tc w =
     (Inr (Some [''success'' \<mapsto> RVal (PBool True), ''callback_within'' \<mapsto> RVal (PStr ''2 hours'')]),
      s, log_lead e (ArgsObject (voicemail_record d)) w)"
  using assms by (simp add: handle_tool_call_def Let_def)

lemma live_store_accepts: "store_accepts env_live w"
  by (simp add: store_accepts_def env_live_def)


section \<open>The phone of a persisted record\<close>

lemma row_phone_lead_row:
  "row_phone (lead_row stamp d) = dict_get_default d ''phone'' (PStr [])"
  by (simp add: row_phone_def lead_row_def)

lemma phone_of_records:
  "dict_get_default (voicemail_record d) ''phone'' dflt = dict_get d ''caller_phone''"
  "dict_get_default (finalize_record s) ''phone'' dflt = dict_get_default (lead_data s) ''phone'' dflt"
  by (simp_all add: voicemail_record_def finalize_record_def dict_get_default_def)

lemma unknown_caller_session:
  "incoming_call ''CA2'' PNone Map.empty ''CA2''
     = Some ((CallSession ''CA2'')\<lparr>lead_data := (lead_data (CallSession ''CA2''))(''phone'' \<mapsto> PNone)\<rparr>)"
  by (simp add: incoming_call_def)

lemma tc_lead_no_phone_eqs:
  "tc_name tc_lead_no_phone = PStr ''log_lead''"
  "tc_arguments tc_lead_no_phone
     = Some (ArgsObject [''name'' \<mapsto> PStr ''J. Doe'', ''type'' \<mapsto> PStr ''Buyer''])"
  by (simp_all add: tc_lead_no_phone_def)


lemma log_lead_row_phone:
  assumes "store_accepts e w"
  shows "map row_phone (leads_sheet (log_lead e (ArgsObject d) w))
           = map row_phone (leads_sheet w) @ [dict_get_default d ''phone'' (PStr [])]"
  by (simp add: log_lead_row [OF assms] row_phone_lead_row)


section \<open>The dispatcher inside the relay loop\<close>

lemma openai_sent_io [simp]: "openai_sent (io w) = openai_sent w"
  by (simp add: io_def)

lemma openai_sent_log_lead [simp]: "openai_sent (log_lead e a w) = openai_sent w"
  by (simp add: log_lead_def Let_def split: pyargs.splits)

lemma openai_sent_book [simp]: "openai_sent (snd (book_appointment e a w)) = openai_sent w"
  by (simp add: book_appointment_def Let_def split: pyargs.splits option.splits)

lemma openai_sent_sms [simp]: "openai_sent (snd (send_sms e t m w)) = openai_sent w"
  by (simp add: send_sms_def)

lemma openai_sent_check [simp]:
  "openai_sent (snd (check_calendar_availability e date d w)) = openai_sent w"
  by (simp add: check_calendar_availability_def split: option.splits)











section \<open>The availability planner\<close>

text \<open>
  Claim C3.  For every target date, every requested duration and every calendar content,
  \<open>check_calendar_availability\<close> returns at most 5 labels; each is a 12-hour clock
  label with AM or PM, the times they denote lie in [09:00, 20:00) and are strictly
  ascending.  This covers the computed slots and the fallback alike.
\<close>

theorem C3_slots_bounded_ascending:
  "length (fst (check_calendar_availability e date d w)) \<le> 5
   \<and> ascending_within (9 * 60) (20 * 60) (fst (check_calendar_availability e date d w))"
proof -
  let ?r = "fst (check_calendar_availability e date d w)"
  have "length ?r \<le> 5 \<and> ascending_within 540 1200 ?r"
    using availability_cases [of e date d w]
  proof
    assume "?r = fallback_slots"
    then show ?thesis by (simp add: fallback_length fallback_ok)
  next
    assume "\<exists>booked. ?r = take 5 (slots_loop d booked 540 1200 [])"
    then obtain booked where "?r = take 5 (slots_loop d booked 540 1200 [])" ..
    then show ?thesis by (simp add: slots_loop_day day_slots_ok)
  qed
  then show ?thesis by simp
qed

text \<open>
  Claim C5.  The loop over the business window keeps exactly the candidates for which no
  booked start has the candidate's hour and a minute distance below the duration; so a
  booked start in another hour never rejects a candidate, whatever the duration.
\<close>

theorem C5_conflict_test:
  "slots_loop d booked (9 * 60) (20 * 60) [] =
     map strftime_IMp
       (filter (\<lambda>c. \<not> (\<exists>b \<in> set booked. dt_hour b = c div 60
                          \<and> \<bar>int (dt_minute b) - int (c mod 60)\<bar> < d)) candidates)
   \<and> ((\<forall>b \<in> set booked. dt_hour b \<noteq> c div 60) \<longrightarrow> is_available d c booked)"
proof -
  have "(\<lambda>c. is_available d c booked) =
        (\<lambda>c. \<not> (\<exists>b \<in> set booked. dt_hour b = c div 60
                          \<and> \<bar>int (dt_minute b) - int (c mod 60)\<bar> < d))"
    by (rule ext) (rule is_available_iff)
  then have "slots_loop d booked 540 1200 [] =
     map strftime_IMp
       (filter (\<lambda>c. \<not> (\<exists>b \<in> set booked. dt_hour b = c div 60
                          \<and> \<bar>int (dt_minute b) - int (c mod 60)\<bar> < d)) candidates)"
    using slots_loop_day [of d booked] by simp
  moreover have "(\<forall>b \<in> set booked. dt_hour b \<noteq> c div 60) \<longrightarrow> is_available d c booked"
    by (auto simp: is_available_iff)
  ultimately show ?thesis by simp
qed

text \<open>
  With one booking at 10:30 and a duration of 60 minutes only the 10:00 candidate goes;
  the 11:00 candidate stays even for a duration of 1000 minutes.
\<close>

theorem C5_conflict_test_witness:
  "slots_loop 60 booked0 (9 * 60) (20 * 60) [] =
     [''09:00 AM'', ''11:00 AM'', ''12:00 PM'', ''01:00 PM'', ''02:00 PM'', ''03:00 PM'',
      ''04:00 PM'', ''05:00 PM'', ''06:00 PM'', ''07:00 PM'']
   \<and> dt_hour (hd booked0) \<noteq> 660 div 60 \<and> is_available 1000 660 booked0"
proof -
  have a: "slots_loop 60 booked0 (9 * 60) (20 * 60) [] =
     map strftime_IMp
       (filter (\<lambda>c. \<not> (\<exists>b \<in> set booked0. dt_hour b = c div 60
                          \<and> \<bar>int (dt_minute b) - int (c mod 60)\<bar> < 60)) candidates)"
    using C5_conflict_test [of 60 booked0 660] by (rule conjunct1)
  have f: "filter (\<lambda>c. \<not> (\<exists>b \<in> set booked0. dt_hour b = c div 60
                          \<and> \<bar>int (dt_minute b) - int (c mod 60)\<bar> < 60)) candidates
           = [540, 660, 720, 780, 840, 900, 960, 1020, 1080, 1140]"
    by (simp add: booked0_def candidates_def)
  have l: "map strftime_IMp [540, 660, 720, 780, 840, 900, 960, 1020, 1080, 1140] =
     [''09:00 AM'', ''11:00 AM'', ''12:00 PM'', ''01:00 PM'', ''02:00 PM'', ''03:00 PM'',
      ''04:00 PM'', ''05:00 PM'', ''06:00 PM'', ''07:00 PM'']"
    by (simp add: strftime_IMp_def pad2_def digit_def)
  have h: "\<forall>b \<in> set booked0. dt_hour b \<noteq> 660 div 60"
    by (simp add: booked0_def)
  have b: "is_available 1000 660 booked0"
    using C5_conflict_test [of 1000 booked0 660] h by blast
  have h': "dt_hour (hd booked0) \<noteq> 660 div 60"
    by (simp add: booked0_def)
  show ?thesis
    using a h' b by (simp only: f l simp_thms)
qed

text \<open>
  Claim C4.  When the calendar is unavailable or its query fails (no calendar service, a
  date that does not parse, a list request that raises, an event start that cannot be
  read), \<open>check_calendar_availability\<close> returns the fixed three slots, whatever the date,
  the duration and the calendar content.  The function has no error result: every
  exception of its body is caught.
\<close>

theorem C4_fallback_on_failure:
  assumes "calendar_query_fails e date_str w"
  shows "fst (check_calendar_availability e date_str d w) = [''10:00 AM'', ''2:00 PM'', ''4:00 PM'']"
  using assms
  by (auto simp: calendar_query_fails_def check_calendar_availability_def fallback_slots_def
      split: option.splits)

text \<open>Without a calendar service, and with a list request that raises.\<close>

theorem C4_fallback_on_failure_witness:
  "calendar_query_fails env_mock (PStr ''2025-06-10'') world0
   \<and> fst (check_calendar_availability env_mock (PStr ''2025-06-10'') 45 world0)
       = [''10:00 AM'', ''2:00 PM'', ''4:00 PM'']
   \<and> calendar_query_fails (env_live\<lparr>events_list := (\<lambda>n win. None)\<rparr>) (PStr ''2025-06-10'') world0
   \<and> fst (check_calendar_availability (env_live\<lparr>events_list := (\<lambda>n win. None)\<rparr>) (PStr ''2025-06-10'') 30 world0)
       = [''10:00 AM'', ''2:00 PM'', ''4:00 PM'']"
proof -
  have m: "calendar_query_fails env_mock (PStr ''2025-06-10'') world0"
    by (simp add: calendar_query_fails_def env_mock_def)
  have l: "calendar_query_fails (env_live\<lparr>events_list := (\<lambda>n win. None)\<rparr>) (PStr ''2025-06-10'') world0"
    by (simp add: calendar_query_fails_def env_live_def)
  show ?thesis
    using m l C4_fallback_on_failure [OF m, of 45] C4_fallback_on_failure [OF l, of 30]
    by simp
qed


section \<open>The dispatcher\<close>

text \<open>
  Claim C6.  The claim has the dispatcher forward the requested duration to the planner.
  The tool schema declares \<open>duration_minutes\<close> and the planner takes it, but
  \<open>handle_tool_call\<close> calls the planner with the date only.  With one booking at 10:30 and
  a requested duration of 15 minutes, the dispatcher's result drops 10:00 AM (the default
  of 60 applies), while the planner called with 15 keeps it.
\<close>

theorem C6_duration_not_forwarded:
  "result_field (fst (handle_tool_call env_live session0 tc_check_15 world0)) ''available_slots''
     = Some (RSlots [''09:00 AM'', ''11:00 AM'', ''12:00 PM'', ''01:00 PM'', ''02:00 PM''])
   \<and> fst (check_calendar_availability env_live (PStr ''2025-06-10'') 15 world0)
     = [''09:00 AM'', ''10:00 AM'', ''11:00 AM'', ''12:00 PM'', ''01:00 PM'']"
proof -
  have "handle_tool_call env_live session0 tc_check_15 world0 =
     (Inr (Some [''available_slots'' \<mapsto> RSlots (fst (check_calendar_availability env_live (PStr ''2025-06-10'') 60 world0)),
                 ''date'' \<mapsto> RVal (PStr ''2025-06-10'')]),
      session0, snd (check_calendar_availability env_live (PStr ''2025-06-10'') 60 world0))"
    using check_branch [of tc_check_15 "[''date'' \<mapsto> PStr ''2025-06-10'', ''duration_minutes'' \<mapsto> PInt 15]"
        env_live session0 world0]
    by (simp add: tc_check_15_def dict_get_def)
  then show ?thesis
    by (simp add: result_field_def live_slots_60 live_slots_15)
qed


text \<open>
  Claim C1, as stated, fails, in two ways.  With every store working, a booking whose
  arguments have no phone is created in the calendar, sets the flag and returns
  \<open>success = True\<close>, and no notifier call is made: the confirmation is sent under the
  guard \<open>if phone:\<close>.  And when the insert succeeds but the log of the appointment to
  the sheet raises, the event is in the calendar, yet the result is \<open>success = False\<close>,
  the flag stays unset and no notifier call is made.
\<close>

theorem C1_create_succeeds_counterexample:
  "create_succeeds env_live (ArgsObject (booking_args(''phone'' := None))) world0
   \<and> calendar_events (snd (snd (handle_tool_call env_live session0 tc_book_no_phone world0)))
        = [booking_args(''phone'' := None)]
   \<and> result_field (fst (handle_tool_call env_live session0 tc_book_no_phone world0)) ''success''
        = Some (RVal (PBool True))
   \<and> appointment_booked (fst (snd (handle_tool_call env_live session0 tc_book_no_phone world0)))
   \<and> sms_requests (snd (snd (handle_tool_call env_live session0 tc_book_no_phone world0))) = []
   \<and> create_succeeds env_append_raises (ArgsObject booking_args) world0
   \<and> calendar_events (snd (snd (handle_tool_call env_append_raises session0 tc_book world0)))
        = [booking_args]
   \<and> result_field (fst (handle_tool_call env_append_raises session0 tc_book world0)) ''success''
        = Some (RVal (PBool False))
   \<and> \<not> appointment_booked (fst (snd (handle_tool_call env_append_raises session0 tc_book world0)))
   \<and> sms_requests (snd (snd (handle_tool_call env_append_raises session0 tc_book world0))) = []"
proof -
  let ?np = "booking_args(''phone'' := None)"
  have n: "tc_name tc_book_no_phone = PStr ''book_appointment''"
    and a: "tc_arguments tc_book_no_phone = Some (ArgsObject ?np)"
    by (simp_all add: tc_book_no_phone_def)
  have n': "tc_name tc_book = PStr ''book_appointment''"
    and a': "tc_arguments tc_book = Some (ArgsObject booking_args)"
    by (simp_all add: tc_book_def)
  have g: "dict_get ?np ''phone'' = PNone"
    by (simp add: dict_get_def)
  have ok: "fst (book_appointment env_live (ArgsObject ?np) world0)"
    using create_succeeds_result(1) [OF live_create_succeeds(2)] live_log_ok(1) by simp
  have ko: "\<not> fst (book_appointment env_append_raises (ArgsObject booking_args) world0)"
    using create_succeeds_result(1) [OF live_create_succeeds(3)] live_log_ok(2) by simp
  have 1: "calendar_events (snd (snd (handle_tool_call env_live session0 tc_book_no_phone world0))) = [?np]
     \<and> result_field (fst (handle_tool_call env_live session0 tc_book_no_phone world0)) ''success''
        = Some (RVal (PBool True))
     \<and> appointment_booked (fst (snd (handle_tool_call env_live session0 tc_book_no_phone world0)))
     \<and> sms_requests (snd (snd (handle_tool_call env_live session0 tc_book_no_phone world0))) = []"
    by (simp add: book_branch_success [OF n a ok] g result_field_def book_appointment_sms
        create_succeeds_result(2) [OF live_create_succeeds(2)] world0_empty)
  have 2: "calendar_events (snd (snd (handle_tool_call env_append_raises session0 tc_book world0)))
        = [booking_args]
     \<and> result_field (fst (handle_tool_call env_append_raises session0 tc_book world0)) ''success''
        = Some (RVal (PBool False))
     \<and> \<not> appointment_booked (fst (snd (handle_tool_call env_append_raises session0 tc_book world0)))
     \<and> sms_requests (snd (snd (handle_tool_call env_append_raises session0 tc_book world0))) = []"
    by (simp add: book_branch_failure [OF n' a' ko] result_field_def book_appointment_sms
        create_succeeds_result(2) [OF live_create_succeeds(3)] world0_empty session0_not_booked)
  show ?thesis
    using 1 2 live_create_succeeds(2,3) by blast
qed

text \<open>
  Claim C1, amended.  For every \<open>book_appointment\<close> invocation whose calendar-store create
  succeeds and whose log of the appointment to the sheet does not raise,
  \<open>handle_tool_call\<close> sets \<open>appointment_booked\<close> and returns \<open>success = True\<close>, the event
  being in the calendar.  When the \<open>phone\<close> argument is truthy it makes exactly one
  notifier call, to that phone, with the confirmation text; when the phone is absent or
  empty it makes none.  The confirmation text contains the rendered purpose, date, time
  and location (a string renders as itself).
\<close>

theorem C1_booking_success:
  assumes "tc_name tc = PStr ''book_appointment''"
    and "tc_arguments tc = Some (ArgsObject d)"
    and "create_succeeds e (ArgsObject d) w"
    and "appointment_log_ok e w"
  shows "appointment_booked (fst (snd (handle_tool_call e s tc w)))
     \<and> result_field (fst (handle_tool_call e s tc w)) ''success'' = Some (RVal (PBool True))
     \<and> calendar_events (snd (snd (handle_tool_call e s tc w))) = calendar_events w @ [d]
     \<and> sms_requests (snd (snd (handle_tool_call e s tc w))) =
         (if truthy (dict_get d ''phone'')
          then sms_requests w @ [(dict_get d ''phone'', PStr (confirmation_msg d))]
          else sms_requests w)
     \<and> sublist (py_str (dict_get d ''purpose'')) (confirmation_msg d)
     \<and> sublist (py_str (dict_get d ''date'')) (confirmation_msg d)
     \<and> sublist (py_str (dict_get d ''time'')) (confirmation_msg d)
     \<and> sublist (py_str (dict_get d ''location'')) (confirmation_msg d)"
proof -
  have ok: "fst (book_appointment e (ArgsObject d) w)"
    using create_succeeds_result(1) [OF assms(3)] assms(4) by simp
  show ?thesis
    by (simp add: book_branch_success [OF assms(1,2) ok] result_field_def book_appointment_sms
        send_sms_requests send_sms_calendar confirmation_contains
        create_succeeds_result(2) [OF assms(3)])
qed

text \<open>The booking of the end-to-end scenario, against configured and working stores.\<close>

theorem C1_booking_success_witness:
  "create_succeeds env_live (ArgsObject booking_args) world0
   \<and> appointment_log_ok env_live world0
   \<and> appointment_booked (fst (snd (handle_tool_call env_live session0 tc_book world0)))
   \<and> result_field (fst (handle_tool_call env_live session0 tc_book world0)) ''success''
        = Some (RVal (PBool True))
   \<and> calendar_events (snd (snd (handle_tool_call env_live session0 tc_book world0))) = [booking_args]
   \<and> sms_requests (snd (snd (handle_tool_call env_live session0 tc_book world0)))
        = [(PStr ''+15145550000'', PStr (confirmation_msg booking_args))]
   \<and> sublist ''Property Viewing'' (confirmation_msg booking_args)
   \<and> sublist ''2025-06-10'' (confirmation_msg booking_args)
   \<and> sublist ''10:00 AM'' (confirmation_msg booking_args)
   \<and> sublist ''123 Rue X'' (confirmation_msg booking_args)"
proof -
  have n: "tc_name tc_book = PStr ''book_appointment''"
    and a: "tc_arguments tc_book = Some (ArgsObject booking_args)"
    by (simp_all add: tc_book_def)
  have g: "dict_get booking_args ''phone'' = PStr ''+15145550000''"
    "dict_get booking_args ''purpose'' = PStr ''Property Viewing''"
    "dict_get booking_args ''date'' = PStr ''2025-06-10''"
    "dict_get booking_args ''time'' = PStr ''10:00 AM''"
    "dict_get booking_args ''location'' = PStr ''123 Rue X''"
    by (simp_all add: booking_args_def dict_get_def)
  show ?thesis
    using C1_booking_success [OF n a live_create_succeeds(1) live_log_ok(1), of session0]
      live_create_succeeds(1) live_log_ok(1) [of world0]
    by (simp add: g world0_empty)
qed

text \<open>
  Claim C2.  For every \<open>book_appointment\<close> invocation whose calendar-store create fails
  (the insert request raises, or building it raises), \<open>handle_tool_call\<close> returns
  \<open>success = False\<close>, leaves the session as it was (so the flag \<open>appointment_booked\<close>
  keeps its value), makes no notifier call and leaves the calendar as it was.
\<close>

theorem C2_booking_failure:
  assumes "tc_name tc = PStr ''book_appointment''"
    and "tc_arguments tc = Some a"
    and "create_fails e a w"
  shows "result_field (fst (handle_tool_call e s tc w)) ''success'' = Some (RVal (PBool False))
     \<and> fst (snd (handle_tool_call e s tc w)) = s
     \<and> appointment_booked (fst (snd (handle_tool_call e s tc w))) = appointment_booked s
     \<and> sms_requests (snd (snd (handle_tool_call e s tc w))) = sms_requests w
     \<and> calendar_events (snd (snd (handle_tool_call e s tc w))) = calendar_events w"
proof -
  have f: "\<not> fst (book_appointment e a w)"
    using assms(3) by (rule create_fails_result)
  show ?thesis
    by (simp add: book_branch_failure [OF assms(1,2) f] result_field_def book_appointment_sms
        create_fails_result(2) [OF assms(3)])
qed

text \<open>An insert request that raises; and a booking whose time does not parse.\<close>

theorem C2_booking_failure_witness:
  "create_fails env_insert_raises (ArgsObject booking_args) world0
   \<and> result_field (fst (handle_tool_call env_insert_raises session0 tc_book world0)) ''success''
        = Some (RVal (PBool False))
   \<and> \<not> appointment_booked (fst (snd (handle_tool_call env_insert_raises session0 tc_book world0)))
   \<and> sms_requests (snd (snd (handle_tool_call env_insert_raises session0 tc_book world0))) = []
   \<and> calendar_events (snd (snd (handle_tool_call env_insert_raises session0 tc_book world0))) = []
   \<and> create_fails env_live (ArgsObject (booking_args(''time'' \<mapsto> PStr ''25 o clock''))) world0
   \<and> result_field (fst (handle_tool_call env_live session0 tc_book_bad_time world0)) ''success''
        = Some (RVal (PBool False))
   \<and> sms_requests (snd (snd (handle_tool_call env_live session0 tc_book_bad_time world0))) = []"
proof -
  have n: "tc_name tc_book = PStr ''book_appointment''"
    and a: "tc_arguments tc_book = Some (ArgsObject booking_args)"
    by (simp_all add: tc_book_def)
  have n': "tc_name tc_book_bad_time = PStr ''book_appointment''"
    and a': "tc_arguments tc_book_bad_time
              = Some (ArgsObject (booking_args(''time'' \<mapsto> PStr ''25 o clock'')))"
    by (simp_all add: tc_book_bad_time_def)
  show ?thesis
    using C2_booking_failure [OF n a insert_raises_fails, of session0]
      C2_booking_failure [OF n' a' bad_time_fails, of session0]
      insert_raises_fails bad_time_fails session0_not_booked
    by (simp add: world0_empty)
qed


section \<open>Transfer requests and the deferred cleanup\<close>

text \<open>
  Claim C7.  For every session and world, a \<open>warm_transfer\<close> invocation leaves
  \<open>transfer_requested\<close> true, and a second one leaves it true; each invocation hands
  exactly one record to the record store (one \<open>log_lead\<close> call, which appends one row to
  the sheet when the store is configured and the append succeeds), and each returns the
  hold-and-transfer result carrying its context summary.
\<close>

theorem C7_warm_transfer_idempotent:
  assumes "tc_name tc1 = PStr ''warm_transfer''" and "tc_arguments tc1 = Some (ArgsObject d1)"
    and "tc_name tc2 = PStr ''warm_transfer''" and "tc_arguments tc2 = Some (ArgsObject d2)"
    and "handle_tool_call e s tc1 w = (r1, s1, w1)"
    and "handle_tool_call e s1 tc2 w1 = (r2, s2, w2)"
  shows "transfer_requested s1 \<and> transfer_requested s2
     \<and> log_lead_calls w1 = log_lead_calls w @ [ArgsObject (transfer_record (lead_data s) d1)]
     \<and> log_lead_calls w2 = log_lead_calls w1 @ [ArgsObject (transfer_record (lead_data s1) d2)]
     \<and> (store_accepts e w \<longrightarrow> length (leads_sheet w1) = length (leads_sheet w) + 1)
     \<and> (store_accepts e w1 \<longrightarrow> length (leads_sheet w2) = length (leads_sheet w1) + 1)
     \<and> result_field r1 ''status'' = Some (RVal (PStr ''transfer_initiated''))
     \<and> result_field r1 ''message'' = Some (RVal (PStr ''Connecting you to Mark Esposito now. Please hold.''))
     \<and> result_field r1 ''context'' = Some (RVal (dict_get d1 ''context_summary''))
     \<and> result_field r2 ''status'' = Some (RVal (PStr ''transfer_initiated''))
     \<and> result_field r2 ''message'' = Some (RVal (PStr ''Connecting you to Mark Esposito now. Please hold.''))
     \<and> result_field r2 ''context'' = Some (RVal (dict_get d2 ''context_summary''))"
proof -
  have 1: "r1 = Inr (Some [''status'' \<mapsto> RVal (PStr ''transfer_initiated''),
                 ''message'' \<mapsto> RVal (PStr ''Connecting you to Mark Esposito now. Please hold.''),
                 ''context'' \<mapsto> RVal (dict_get d1 ''context_summary'')])"
    "s1 = s\<lparr>transfer_requested := True\<rparr>"
    "w1 = log_lead e (ArgsObject (transfer_record (lead_data s) d1)) w"
    using assms(5) unfolding transfer_branch [OF assms(1,2)] by simp_all
  have 2: "r2 = Inr (Some [''status'' \<mapsto> RVal (PStr ''transfer_initiated''),
                 ''message'' \<mapsto> RVal (PStr ''Connecting you to Mark Esposito now. Please hold.''),
                 ''context'' \<mapsto> RVal (dict_get d2 ''context_summary'')])"
    "s2 = s1\<lparr>transfer_requested := True\<rparr>"
    "w2 = log_lead e (ArgsObject (transfer_record (lead_data s1) d2)) w1"
    using assms(6) unfolding transfer_branch [OF assms(3,4)] by simp_all
  have f1: "transfer_requested s1 \<and> transfer_requested s2"
    by (simp add: 1(2) 2(2))
  have c1: "log_lead_calls w1 = log_lead_calls w @ [ArgsObject (transfer_record (lead_data s) d1)]"
    unfolding 1(3) by (rule log_lead_calls_append)
  have c2: "log_lead_calls w2 = log_lead_calls w1 @ [ArgsObject (transfer_record (lead_data s1) d2)]"
    unfolding 2(3) by (rule log_lead_calls_append)
  have l1: "store_accepts e w \<longrightarrow> length (leads_sheet w1) = length (leads_sheet w) + 1"
    unfolding 1(3) by (simp add: log_lead_row)
  have l2: "store_accepts e w1 \<longrightarrow> length (leads_sheet w2) = length (leads_sheet w1) + 1"
    unfolding 2(3) by (simp add: log_lead_row)
  have r: "result_field r1 ''status'' = Some (RVal (PStr ''transfer_initiated''))"
    "result_field r1 ''message'' = Some (RVal (PStr ''Connecting you to Mark Esposito now. Please hold.''))"
    "result_field r1 ''context'' = Some (RVal (dict_get d1 ''context_summary''))"
    "result_field r2 ''status'' = Some (RVal (PStr ''transfer_initiated''))"
    "result_field r2 ''message'' = Some (RVal (PStr ''Connecting you to Mark Esposito now. Please hold.''))"
    "result_field r2 ''context'' = Some (RVal (dict_get d2 ''context_summary''))"
    by (simp_all add: 1(1) 2(1) result_field_def)
  show ?thesis
    using f1 c1 c2 l1 l2 r by blast
qed

text \<open>Two transfer requests on a fresh session, against a working store.\<close>

theorem C7_warm_transfer_idempotent_witness:
  "transfer_requested (fst (snd transfer_once))
   \<and> transfer_requested (fst (snd transfer_twice))
   \<and> length (log_lead_calls (snd (snd transfer_once))) = 1
   \<and> length (log_lead_calls (snd (snd transfer_twice))) = 2
   \<and> length (leads_sheet (snd (snd transfer_twice))) = 2
   \<and> result_field (fst transfer_once) ''context'' = Some (RVal (PStr ''buyer, Westmount''))
   \<and> result_field (fst transfer_twice) ''context'' = Some (RVal (PStr ''buyer, Westmount''))"
proof -
  have n: "tc_name tc_transfer = PStr ''warm_transfer''"
    and a: "tc_arguments tc_transfer = Some (ArgsObject [''reason'' \<mapsto> PStr ''wants Mark'',
                                               ''context_summary'' \<mapsto> PStr ''buyer, Westmount''])"
    by (simp_all add: tc_transfer_def)
  have h1: "handle_tool_call env_live session0 tc_transfer world0
      = (fst transfer_once, fst (snd transfer_once), snd (snd transfer_once))"
    by (simp add: transfer_once_def)
  have h2: "handle_tool_call env_live (fst (snd transfer_once)) tc_transfer (snd (snd transfer_once))
      = (fst transfer_twice, fst (snd transfer_twice), snd (snd transfer_twice))"
    by (simp add: transfer_twice_def)
  have w: "log_lead_calls world0 = []" "leads_sheet world0 = []"
    by (simp_all add: world0_def)
  show ?thesis
    using C7_warm_transfer_idempotent [OF n a n a h1 h2]
    by (simp add: live_store_accepts w dict_get_def)
qed

text \<open>
  Claim C8.  When the deferred cleanup runs and the session is gone, nothing happens.
  When the session is there, its entry is removed; if it did not book and its name is
  truthy, exactly one record, tagged \<open>Call ended without booking\<close>, is handed to the
  record store (one row when the store accepts it); if it booked, the world is unchanged.
\<close>

theorem C8_deferred_cleanup:
  "(active_sessions sid = None \<longrightarrow>
      delayed_cleanup e sid active_sessions w = (active_sessions, w))
   \<and> (active_sessions sid = Some s \<longrightarrow>
        fst (delayed_cleanup e sid active_sessions w) = active_sessions(sid := None)
      \<and> (\<not> appointment_booked s \<and> truthy (dict_get (lead_data s) ''name'') \<longrightarrow>
           log_lead_calls (snd (delayed_cleanup e sid active_sessions w))
             = log_lead_calls w @ [ArgsObject (finalize_record s)]
         \<and> finalize_record s ''notes'' = Some (PStr ''Call ended without booking. Follow up required.'')
         \<and> (store_accepts e w \<longrightarrow>
              length (leads_sheet (snd (delayed_cleanup e sid active_sessions w)))
                = length (leads_sheet w) + 1))
      \<and> (appointment_booked s \<longrightarrow> snd (delayed_cleanup e sid active_sessions w) = w))"
  by (simp add: delayed_cleanup_def log_lead_calls_append log_lead_row finalize_record_def)


text \<open>The cleanup of an absent session, of a named session, of a session that booked.\<close>

theorem C8_deferred_cleanup_witness:
  "delayed_cleanup env_live ''CA1'' Map.empty world0 = (Map.empty, world0)
   \<and> fst (delayed_cleanup env_live ''CA1'' [''CA1'' \<mapsto> session_named] world0) ''CA1'' = None
   \<and> log_lead_calls (snd (delayed_cleanup env_live ''CA1'' [''CA1'' \<mapsto> session_named] world0))
        = [ArgsObject (finalize_record session_named)]
   \<and> length (leads_sheet (snd (delayed_cleanup env_live ''CA1'' [''CA1'' \<mapsto> session_named] world0))) = 1
   \<and> fst (delayed_cleanup env_live ''CA1'' [''CA1'' \<mapsto> session_booked] world0) ''CA1'' = None
   \<and> snd (delayed_cleanup env_live ''CA1'' [''CA1'' \<mapsto> session_booked] world0) = world0"
proof -
  have b: "appointment_booked session_booked" "\<not> appointment_booked session_named"
    by (simp_all add: session_booked_def session_named_def session0_def CallSession_def)
  have t: "truthy (dict_get (lead_data session_named) ''name'')"
    by (simp add: session_named_def dict_get_def)
  have w: "log_lead_calls world0 = []" "leads_sheet world0 = []"
    by (simp_all add: world0_def)
  show ?thesis
    using C8_deferred_cleanup [of Map.empty "''CA1''" env_live world0 session_named]
      C8_deferred_cleanup [of "[''CA1'' \<mapsto> session_named]" "''CA1''" env_live world0 session_named]
      C8_deferred_cleanup [of "[''CA1'' \<mapsto> session_booked]" "''CA1''" env_live world0 session_booked]
    by (simp add: b t w live_store_accepts)
qed


section \<open>The phone of persisted records\<close>

text \<open>
  Claim C10, as stated, fails: no path substitutes anything for a missing phone.  A call
  without caller id, on which \<open>log_lead\<close> is invoked with a name and no phone and which
  ends without a booking, leaves two rows in the sheet: the first with an empty phone,
  the second, written at cleanup, with the phone \<open>None\<close> and not the call identifier.
  And a voicemail logged without caller phone leaves a row whose phone is \<open>None\<close>.
\<close>

theorem C10_blank_phone_counterexample:
  "map row_phone (leads_sheet unknown_caller_run) = [PStr [], PNone]
   \<and> map row_phone (leads_sheet (snd (snd (handle_tool_call env_live session0
                                                 tc_voicemail_no_phone world0)))) = [PNone]"
proof -
  let ?d = "[''name'' \<mapsto> PStr ''J. Doe'', ''type'' \<mapsto> PStr ''Buyer'']"
  let ?s0 = "(CallSession ''CA2'')\<lparr>lead_data := (lead_data (CallSession ''CA2''))(''phone'' \<mapsto> PNone)\<rparr>"
  let ?s1 = "?s0\<lparr>lead_data := merge_lead (lead_data ?s0) ?d lead_keys\<rparr>"
  let ?w1 = "log_lead env_live (ArgsObject ?d) world0"
  have run: "unknown_caller_run =
      snd (delayed_cleanup env_live ''CA2''
             ((incoming_call ''CA2'' PNone Map.empty)(''CA2'' \<mapsto> ?s1)) ?w1)"
    by (simp add: unknown_caller_run_def unknown_caller_session
        lead_branch [OF tc_lead_no_phone_eqs])
  have name: "dict_get (lead_data ?s1) ''name'' = PStr ''J. Doe''"
    by (simp add: lead_keys_def dict_get_def CallSession_def)
  have phone: "dict_get_default (lead_data ?s1) ''phone'' (PStr []) = PNone"
    by (simp add: lead_keys_def dict_get_def dict_get_default_def CallSession_def)
  have nb: "\<not> appointment_booked ?s1"
    by (simp add: CallSession_def)
  have w1: "leads_sheet ?w1 = [lead_row (now env_live 0) ?d]"
    using log_lead_row [OF live_store_accepts, of ?d world0] by (simp add: world0_def)
  have fin: "unknown_caller_run = log_lead env_live (ArgsObject (finalize_record ?s1)) ?w1"
    unfolding run using name nb by (simp add: delayed_cleanup_def)
  have "leads_sheet unknown_caller_run
      = [lead_row (now env_live 0) ?d, lead_row (now env_live (tick ?w1)) (finalize_record ?s1)]"
    unfolding fin using log_lead_row [OF live_store_accepts, of "finalize_record ?s1" ?w1] w1
    by simp
  moreover have "dict_get_default ?d ''phone'' (PStr []) = PStr []"
    by (simp add: dict_get_default_def)
  ultimately have run_rows: "map row_phone (leads_sheet unknown_caller_run) = [PStr [], PNone]"
    using phone by (simp add: row_phone_lead_row phone_of_records)
  let ?v = "[''caller_name'' \<mapsto> PStr ''J. Doe'', ''message'' \<mapsto> PStr ''call me'']"
  have v: "tc_name tc_voicemail_no_phone = PStr ''log_voicemail''"
    "tc_arguments tc_voicemail_no_phone = Some (ArgsObject ?v)"
    by (simp_all add: tc_voicemail_no_phone_def)
  have "dict_get ?v ''caller_phone'' = PNone"
    by (simp add: dict_get_def)
  then have "map row_phone (leads_sheet (snd (snd (handle_tool_call env_live session0
                                                 tc_voicemail_no_phone world0)))) = [PNone]"
    by (simp add: voicemail_branch [OF v] log_lead_row_phone [OF live_store_accepts]
        phone_of_records world0_empty)
  with run_rows show ?thesis by simp
qed

text \<open>
  Claim C10, amended.  The record handed to the record store, and the row that an
  accepting store appends for it, carry the phone the source gives and nothing else:
  for \<open>log_lead\<close> the \<open>phone\<close> argument (an empty text in the row when absent), for
  \<open>log_voicemail\<close> the \<open>caller_phone\<close> argument (\<open>None\<close> when absent), for the final log
  at cleanup the session's phone, which \<open>incoming_call\<close> seeded from the caller id.  No
  fallback value is substituted.  (The record of a transfer request is left out of this
  statement.)
\<close>

theorem C10_persisted_phone:
  "(tc_name tc = PStr ''log_lead'' \<and> tc_arguments tc = Some (ArgsObject d) \<longrightarrow>
      log_lead_calls (snd (snd (handle_tool_call e s tc w))) = log_lead_calls w @ [ArgsObject d]
      \<and> (store_accepts e w \<longrightarrow>
           map row_phone (leads_sheet (snd (snd (handle_tool_call e s tc w))))
             = map row_phone (leads_sheet w) @ [dict_get_default d ''phone'' (PStr [])]))
   \<and> (tc_name tc = PStr ''log_voicemail'' \<and> tc_arguments tc = Some (ArgsObject d) \<longrightarrow>
      log_lead_calls (snd (snd (handle_tool_call e s tc w)))
        = log_lead_calls w @ [ArgsObject (voicemail_record d)]
      \<and> voicemail_record d ''phone'' = Some (dict_get d ''caller_phone'')
      \<and> (store_accepts e w \<longrightarrow>
           map row_phone (leads_sheet (snd (snd (handle_tool_call e s tc w))))
             = map row_phone (leads_sheet w) @ [dict_get d ''caller_phone'']))
   \<and> (active_sessions sid = Some s \<and> \<not> appointment_booked s
        \<and> truthy (dict_get (lead_data s) ''name'') \<longrightarrow>
      log_lead_calls (snd (delayed_cleanup e sid active_sessions w))
        = log_lead_calls w @ [ArgsObject (finalize_record s)]
      \<and> finalize_record s ''phone'' = lead_data s ''phone''
      \<and> (store_accepts e w \<longrightarrow>
           map row_phone (leads_sheet (snd (delayed_cleanup e sid active_sessions w)))
             = map row_phone (leads_sheet w) @ [dict_get_default (lead_data s) ''phone'' (PStr [])]))
   \<and> map_option (\<lambda>s. dict_get (lead_data s) ''phone'')
        (incoming_call sid from_number active_sessions sid) = Some from_number"
proof -
  have 1: "tc_name tc = PStr ''log_lead'' \<and> tc_arguments tc = Some (ArgsObject d) \<longrightarrow>
      log_lead_calls (snd (snd (handle_tool_call e s tc w))) = log_lead_calls w @ [ArgsObject d]
      \<and> (store_accepts e w \<longrightarrow>
           map row_phone (leads_sheet (snd (snd (handle_tool_call e s tc w))))
             = map row_phone (leads_sheet w) @ [dict_get_default d ''phone'' (PStr [])])"
    by (simp add: lead_branch log_lead_calls_append log_lead_row_phone)
  have 2: "tc_name tc = PStr ''log_voicemail'' \<and> tc_arguments tc = Some (ArgsObject d) \<longrightarrow>
      log_lead_calls (snd (snd (handle_tool_call e s tc w)))
        = log_lead_calls w @ [ArgsObject (voicemail_record d)]
      \<and> voicemail_record d ''phone'' = Some (dict_get d ''caller_phone'')
      \<and> (store_accepts e w \<longrightarrow>
           map row_phone (leads_sheet (snd (snd (handle_tool_call e s tc w))))
             = map row_phone (leads_sheet w) @ [dict_get d ''caller_phone''])"
    by (simp add: voicemail_branch log_lead_calls_append log_lead_row_phone phone_of_records)
       (simp add: voicemail_record_def)
  have 3: "active_sessions sid = Some s \<and> \<not> appointment_booked s
        \<and> truthy (dict_get (lead_data s) ''name'') \<longrightarrow>
      log_lead_calls (snd (delayed_cleanup e sid active_sessions w))
        = log_lead_calls w @ [ArgsObject (finalize_record s)]
      \<and> finalize_record s ''phone'' = lead_data s ''phone''
      \<and> (store_accepts e w \<longrightarrow>
           map row_phone (leads_sheet (snd (delayed_cleanup e sid active_sessions w)))
             = map row_phone (leads_sheet w) @ [dict_get_default (lead_data s) ''phone'' (PStr [])])"
    by (simp add: delayed_cleanup_def log_lead_calls_append log_lead_row_phone phone_of_records)
       (simp add: finalize_record_def)
  have 4: "map_option (\<lambda>s. dict_get (lead_data s) ''phone'')
        (incoming_call sid from_number active_sessions sid) = Some from_number"
    by (simp add: incoming_call_def dict_get_def)
  show ?thesis
    using 1 2 3 4 by blast
qed

text \<open>A voicemail with a phone, a lead without one, the cleanup of a named session.\<close>

theorem C10_persisted_phone_witness:
  "map row_phone (leads_sheet (snd (snd (handle_tool_call env_live session0 tc_voicemail world0))))
     = [PStr ''+15145550000'']
   \<and> log_lead_calls (snd (snd (handle_tool_call env_live session0 tc_lead_no_phone world0)))
     = [ArgsObject [''name'' \<mapsto> PStr ''J. Doe'', ''type'' \<mapsto> PStr ''Buyer'']]
   \<and> map row_phone (leads_sheet (snd (snd (handle_tool_call env_live session0 tc_lead_no_phone world0))))
     = [PStr []]
   \<and> map row_phone (leads_sheet (snd (delayed_cleanup env_live ''CA1'' [''CA1'' \<mapsto> session_named] world0)))
     = [PStr ''+15145550000'']"
proof -
  let ?dv = "[''caller_name'' \<mapsto> PStr ''J. Doe'', ''caller_phone'' \<mapsto> PStr ''+15145550000'',
              ''message'' \<mapsto> PStr ''call me'']"
  let ?dl = "[''name'' \<mapsto> PStr ''J. Doe'', ''type'' \<mapsto> PStr ''Buyer'']"
  let ?reg = "[''CA1'' \<mapsto> session_named]"
  have v: "tc_name tc_voicemail = PStr ''log_voicemail'' \<and> tc_arguments tc_voicemail = Some (ArgsObject ?dv)"
    by (simp add: tc_voicemail_def)
  have l: "tc_name tc_lead_no_phone = PStr ''log_lead'' \<and> tc_arguments tc_lead_no_phone = Some (ArgsObject ?dl)"
    by (simp add: tc_lead_no_phone_def)
  have c: "?reg ''CA1'' = Some session_named \<and> \<not> appointment_booked session_named
      \<and> truthy (dict_get (lead_data session_named) ''name'')"
    by (simp add: session_named_def session0_def CallSession_def dict_get_def)
  have st: "store_accepts env_live world0"
    by (rule live_store_accepts)
  have pv: "dict_get ?dv ''caller_phone'' = PStr ''+15145550000''"
    by (simp add: dict_get_def)
  have pl: "dict_get_default ?dl ''phone'' (PStr []) = PStr []"
    by (simp add: dict_get_default_def)
  have pc: "dict_get_default (lead_data session_named) ''phone'' (PStr []) = PStr ''+15145550000''"
    by (simp add: session_named_def session0_def dict_get_default_def)
  have 1: "map row_phone (leads_sheet (snd (snd (handle_tool_call env_live session0 tc_voicemail world0))))
        = map row_phone (leads_sheet world0) @ [dict_get ?dv ''caller_phone'']"
    using C10_persisted_phone [of tc_voicemail ?dv env_live session0 world0 ?reg "''CA1''" PNone]
      v st by blast
  have 2: "log_lead_calls (snd (snd (handle_tool_call env_live session0 tc_lead_no_phone world0)))
        = log_lead_calls world0 @ [ArgsObject ?dl]
      \<and> map row_phone (leads_sheet (snd (snd (handle_tool_call env_live session0 tc_lead_no_phone world0))))
        = map row_phone (leads_sheet world0) @ [dict_get_default ?dl ''phone'' (PStr [])]"
    using C10_persisted_phone [of tc_lead_no_phone ?dl env_live session0 world0 ?reg "''CA1''" PNone]
      l st by blast
  have 3: "map row_phone (leads_sheet (snd (delayed_cleanup env_live ''CA1'' ?reg world0)))
        = map row_phone (leads_sheet world0) @ [dict_get_default (lead_data session_named) ''phone'' (PStr [])]"
    using C10_persisted_phone [of tc_voicemail ?dv env_live session_named world0 ?reg "''CA1''" PNone]
      c st by blast
  show ?thesis
    using 1 2 3 unfolding pv pl pc by (simp add: world0_empty)
qed


section \<open>Failures inside the relay loop\<close>





end
